theory Spec2Isabelle
  imports Main "HOL-Library.Sublist"
begin

section \<open>Personal notes manager: the notes page (routes/index.tsx)\<close>

text \<open>
  The page component keeps its state in signals and changes it in four asynchronous
  handlers (\<open>loadNotes$\<close>, \<open>newNote$\<close>, \<open>saveNote$\<close>, \<open>deleteNote$\<close>), one tracked task
  and the \<open>submit$\<close> handler of the authentication overlay. Each handler is embedded as
  a function from the state before to the list of HTTP requests it issues and the state
  after. What the handler takes from outside the file is a parameter of its embedding:
  \<^item> the HTTP client \<open>api\<close> of \<open>~/lib/http\<close>, a function from the request to the
    uniform result \<open>{ok, data?, error?}\<close>;
  \<^item> \<open>new Date(s).getTime()\<close>, a function \<open>getTime\<close> from the string to the time in
    milliseconds, \<open>None\<close> standing for \<open>NaN\<close> (an invalid date);
  \<^item> \<open>String.prototype.trim\<close> and \<open>String.prototype.toLowerCase\<close>, functions on strings;
  \<^item> \<open>JSON.stringify\<close> on a user.
\<close>

subsection \<open>Data model (\<open>~/lib/models\<close>, as used by the page)\<close>

text \<open>
  \<open>Note {id, title, content, created_at, updated_at}\<close>. The field \<open>id\<close> is named
  \<open>note_id\<close> here, since \<open>id\<close> is the identity function of HOL.
\<close>

record Note =
  note_id :: string
  title :: string
  content :: string
  created_at :: string
  updated_at :: string

text \<open>\<open>NoteInput {title, content}\<close>: the body of POST and PUT.\<close>

record NoteInput =
  in_title :: string
  in_content :: string

text \<open>\<open>{id, email}\<close>: the user of an authentication response.\<close>

record User =
  user_id :: string
  user_email :: string

text \<open>\<open>{token, user}\<close>: the data of an authentication response.\<close>

record AuthData =
  resp_token :: string
  resp_user :: User

text \<open>\<open>{email, password}\<close>: the body of a login or register request.\<close>

record Credentials =
  cred_email :: string
  cred_password :: string

subsection \<open>HTTP requests and results\<close>

datatype http_method = GET | POST | PUT | DELETE

datatype body = NoBody | NoteBody NoteInput | CredBody Credentials

text \<open>
  One call of \<open>api.get\<close>, \<open>api.post\<close>, \<open>api.put\<close> or \<open>api.del\<close>: the method, the path,
  the body and the value of the token signal passed as \<open>tokenSig\<close> (\<open>None\<close> when the
  signal holds \<open>null\<close> or no signal is passed).
\<close>

record request =
  meth :: http_method
  path :: string
  body :: body
  bearer :: "string option"

text \<open>The uniform result \<open>{ok, data?, error?}\<close> of every call.\<close>

record 'a api_result =
  ok :: bool
  data :: "'a option"
  error :: "string option"

datatype js_error = TypeError

subsection \<open>JavaScript operators used by the handlers\<close>

text \<open>\<open>!!v\<close> for a value of type \<open>string | null\<close>: \<open>null\<close> and the empty string are falsy.\<close>

definition truthy :: "string option \<Rightarrow> bool" where
  "truthy v = (case v of None \<Rightarrow> False | Some s \<Rightarrow> s \<noteq> [])"

text \<open>\<open>e || d\<close> for \<open>e\<close> of type \<open>string | undefined\<close> and a string \<open>d\<close>.\<close>

definition or_default :: "string option \<Rightarrow> string \<Rightarrow> string" where
  "or_default e d = (if truthy e then (case e of Some s \<Rightarrow> s | None \<Rightarrow> d) else d)"


text \<open>\<open>xs.find(p)\<close>: the first element that satisfies \<open>p\<close>, \<open>undefined\<close> when there is none.\<close>

fun find_first :: "('a \<Rightarrow> bool) \<Rightarrow> 'a list \<Rightarrow> 'a option" where
  "find_first p [] = None"
| "find_first p (x # xs) = (if p x then Some x else find_first p xs)"

subsection \<open>Sorting by \<open>updated_at\<close>, newest first\<close>

text \<open>
  The comparator of both sorts:
  \<open>(a, b) => new Date(b.updated_at).getTime() - new Date(a.updated_at).getTime()\<close>.
  The difference is \<open>NaN\<close> as soon as one of the two times is.
\<close>

definition compareFn :: "(string \<Rightarrow> int option) \<Rightarrow> Note \<Rightarrow> Note \<Rightarrow> int option" where
  "compareFn getTime a b =
     (case getTime (updated_at b) of
        None \<Rightarrow> None
      | Some tb \<Rightarrow> (case getTime (updated_at a) of None \<Rightarrow> None | Some ta \<Rightarrow> Some (tb - ta)))"

text \<open>
  \<open>Array.prototype.sort(comparefn)\<close>. The language reads a comparator result \<open>NaN\<close> as
  \<open>+0\<close>, and requires the sort to be stable; for a consistent comparator this fixes the
  result, which the insertion sort below computes. For an inconsistent comparator, as
  with a \<open>NaN\<close> among three or more dates, the language leaves the order to the
  implementation, and the order computed below need not be an engine's: the properties
  below use the sort on valid dates, and on two notes.
\<close>

definition sortCompare :: "('a \<Rightarrow> 'a \<Rightarrow> int option) \<Rightarrow> 'a \<Rightarrow> 'a \<Rightarrow> int" where
  "sortCompare cmp x y = (case cmp x y of None \<Rightarrow> 0 | Some v \<Rightarrow> v)"

fun insert_sorted :: "('a \<Rightarrow> 'a \<Rightarrow> int option) \<Rightarrow> 'a \<Rightarrow> 'a list \<Rightarrow> 'a list" where
  "insert_sorted cmp x [] = [x]"
| "insert_sorted cmp x (y # ys) =
     (if sortCompare cmp x y \<le> 0 then x # y # ys else y # insert_sorted cmp x ys)"

definition js_sort :: "('a \<Rightarrow> 'a \<Rightarrow> int option) \<Rightarrow> 'a list \<Rightarrow> 'a list" where
  "js_sort cmp xs = foldr (insert_sorted cmp) xs []"

text \<open>
  \<open>a\<close> may stand directly before \<open>b\<close> in a list sorted newest first: the time of
  \<open>a.updated_at\<close> is greater than or equal to the time of \<open>b.updated_at\<close>. As in
  JavaScript, no comparison with \<open>NaN\<close> holds.
\<close>

definition not_older :: "(string \<Rightarrow> int option) \<Rightarrow> Note \<Rightarrow> Note \<Rightarrow> bool" where
  "not_older getTime a b =
     (case getTime (updated_at a) of
        None \<Rightarrow> False
      | Some ta \<Rightarrow> (case getTime (updated_at b) of None \<Rightarrow> False | Some tb \<Rightarrow> tb \<le> ta))"

text \<open>Every pair of adjacent notes is in descending order of \<open>updated_at\<close>.\<close>

fun sorted_desc :: "(string \<Rightarrow> int option) \<Rightarrow> Note list \<Rightarrow> bool" where
  "sorted_desc getTime (a # b # ns) = (not_older getTime a b \<and> sorted_desc getTime (b # ns))"
| "sorted_desc getTime ns = True"

text \<open>Every \<open>updated_at\<close> of the list is a valid date.\<close>

definition valid_times :: "(string \<Rightarrow> int option) \<Rightarrow> Note list \<Rightarrow> bool" where
  "valid_times getTime ns = list_all (\<lambda>n. getTime (updated_at n) \<noteq> None) ns"

subsection \<open>The state of the page\<close>

text \<open>
  The signals of the page component. The editor signals \<open>title\<close> and \<open>content\<close> are named
  \<open>titleSig\<close> and \<open>contentSig\<close>, as the editor pane receives them, since \<open>title\<close> and
  \<open>content\<close> are the fields of a note; the signal \<open>notes\<close> is named \<open>notesSig\<close>, since
  \<open>notes\<close> is a keyword of Isabelle.
\<close>

record app_state =
  token :: "string option"
  notesSig :: "Note list"
  loading :: bool
  err :: "string option"
  query :: string
  activeId :: "string option"
  titleSig :: string
  contentSig :: string

subsection \<open>The requests of the handlers\<close>

text \<open>
  The four calls of the page, as the handlers below build them:
  \<open>api.get("/notes", {tokenSig: token})\<close>,
  \<open>api.post("/notes", {title: "Untitled", content: ""}, {tokenSig: token})\<close>,
  \<open>api.put(`/notes/${activeId.value}`, {title: title.value.trim() || "Untitled", content:
  content.value}, {tokenSig: token})\<close> and
  \<open>api.del(`/notes/${id}`, {tokenSig: token})\<close>.
\<close>

abbreviation notes_get :: "app_state \<Rightarrow> request" where
  "notes_get s \<equiv> \<lparr>meth = GET, path = ''/notes'', body = NoBody, bearer = token s\<rparr>"

abbreviation notes_post :: "app_state \<Rightarrow> request" where
  "notes_post s \<equiv>
     \<lparr>meth = POST, path = ''/notes'',
      body = NoteBody \<lparr>in_title = ''Untitled'', in_content = []\<rparr>, bearer = token s\<rparr>"

abbreviation notes_put :: "(string \<Rightarrow> string) \<Rightarrow> string \<Rightarrow> app_state \<Rightarrow> request" where
  "notes_put trim i s \<equiv>
     \<lparr>meth = PUT, path = ''/notes/'' @ i,
      body = NoteBody \<lparr>in_title = (if trim (titleSig s) = [] then ''Untitled''
                                    else trim (titleSig s)),
                       in_content = contentSig s\<rparr>,
      bearer = token s\<rparr>"

abbreviation notes_delete :: "string \<Rightarrow> app_state \<Rightarrow> request" where
  "notes_delete i s \<equiv> \<lparr>meth = DELETE, path = ''/notes/'' @ i, body = NoBody, bearer = token s\<rparr>"

subsection \<open>The handlers\<close>

text \<open>\<open>loadNotes$\<close>: GET /notes, sort, and select the first note when none is active.\<close>

definition loadNotes ::
  "(string \<Rightarrow> int option) \<Rightarrow> (request \<Rightarrow> Note list api_result) \<Rightarrow> app_state
     \<Rightarrow> request list \<times> app_state" where
  "loadNotes getTime api_get s =
     (if \<not> truthy (token s) then ([], s)
      else
        let rq = \<lparr>meth = GET, path = ''/notes'', body = NoBody, bearer = token s\<rparr>;
            res = api_get rq;
            s1 = s\<lparr>loading := False, err := None\<rparr>
        in if \<not> ok res
           then ([rq], s1\<lparr>err := Some (or_default (error res) ''Failed to load notes'')\<rparr>)
           else
             let ns = js_sort (compareFn getTime) (case data res of None \<Rightarrow> [] | Some d \<Rightarrow> d);
                 s2 = s1\<lparr>notesSig := ns\<rparr>
             in if \<not> truthy (activeId s2)
                then (case ns of
                        [] \<Rightarrow> ([rq], s2)
                      | first # _ \<Rightarrow>
                          ([rq], s2\<lparr>activeId := Some (note_id first),
                                    titleSig := title first,
                                    contentSig := content first\<rparr>))
                else ([rq], s2))"

text \<open>
  The tracked task \<open>useTask$(({track}) => {track(() => activeId.value); ...})\<close>, run when
  \<open>activeId\<close> changes: the editor takes the fields of the first note whose id is the
  active id, and is emptied when there is none.
\<close>

definition syncEditor :: "app_state \<Rightarrow> app_state" where
  "syncEditor s =
     (case find_first (\<lambda>n0. Some (note_id n0) = activeId s) (notesSig s) of
        Some n \<Rightarrow> s\<lparr>titleSig := title n, contentSig := content n\<rparr>
      | None \<Rightarrow> s\<lparr>titleSig := [], contentSig := []\<rparr>)"

text \<open>\<open>selectNote$\<close>.\<close>

definition selectNote :: "string \<Rightarrow> app_state \<Rightarrow> app_state" where
  "selectNote i s = s\<lparr>activeId := Some i\<rparr>"

text \<open>
  \<open>newNote$\<close>: POST /notes with \<open>{title: "Untitled", content: ""}\<close>, then prepend the note
  returned. When the result is ok and carries no data, \<open>res.data!.id\<close> throws a TypeError
  (the list assigned just before holds \<open>undefined\<close>, which no state here represents: the
  outcome is the error alone).
\<close>

definition newNote ::
  "(request \<Rightarrow> Note api_result) \<Rightarrow> app_state \<Rightarrow> request list \<times> (js_error + app_state)" where
  "newNote api_post s =
     (let input = \<lparr>in_title = ''Untitled'', in_content = []\<rparr>;
          rq = \<lparr>meth = POST, path = ''/notes'', body = NoteBody input, bearer = token s\<rparr>;
          res = api_post rq
      in if \<not> ok res
         then ([rq], Inr (s\<lparr>err := Some (or_default (error res) ''Failed to create note'')\<rparr>))
         else (case data res of
                 None \<Rightarrow> ([rq], Inl TypeError)
               | Some d \<Rightarrow>
                   ([rq], Inr (s\<lparr>notesSig := d # notesSig s,
                                 activeId := Some (note_id d),
                                 titleSig := title d,
                                 contentSig := content d\<rparr>))))"

text \<open>
  \<open>saveNote$\<close>: without an active note it is \<open>newNote$\<close>; otherwise PUT /notes/:id with
  the trimmed title (or "Untitled") and the content, then replace the note in the list
  and sort. When the result is ok and carries no data, reading \<open>updated.id\<close> or
  \<open>updated.title\<close> throws a TypeError.
\<close>

definition saveNote ::
  "(string \<Rightarrow> int option) \<Rightarrow> (string \<Rightarrow> string) \<Rightarrow> (request \<Rightarrow> Note api_result)
     \<Rightarrow> (request \<Rightarrow> Note api_result) \<Rightarrow> app_state \<Rightarrow> request list \<times> (js_error + app_state)" where
  "saveNote getTime trim api_post api_put s =
     (if \<not> truthy (activeId s) then newNote api_post s
      else
        let input = \<lparr>in_title = (if trim (titleSig s) = [] then ''Untitled'' else trim (titleSig s)),
                     in_content = contentSig s\<rparr>;
            rq = \<lparr>meth = PUT,
                  path = ''/notes/'' @ (case activeId s of Some i \<Rightarrow> i | None \<Rightarrow> []),
                  body = NoteBody input, bearer = token s\<rparr>;
            res = api_put rq
        in if \<not> ok res
           then ([rq], Inr (s\<lparr>err := Some (or_default (error res) ''Failed to save note'')\<rparr>))
           else (case data res of
                   None \<Rightarrow> ([rq], Inl TypeError)
                 | Some updated \<Rightarrow>
                     ([rq], Inr (s\<lparr>notesSig := js_sort (compareFn getTime)
                                     (map (\<lambda>n. if note_id n = note_id updated then updated else n)
                                        (notesSig s)),
                                   titleSig := title updated,
                                   contentSig := content updated\<rparr>))))"

text \<open>
  \<open>deleteNote$\<close>: without an active note it does nothing; otherwise DELETE /notes/:id,
  then drop the note from the list and select the first note left.
\<close>

definition deleteNote ::
  "(request \<Rightarrow> unit api_result) \<Rightarrow> app_state \<Rightarrow> request list \<times> app_state" where
  "deleteNote api_del s =
     (case activeId s of
        None \<Rightarrow> ([], s)
      | Some i \<Rightarrow>
          if i = [] then ([], s)
          else
            let rq = \<lparr>meth = DELETE, path = ''/notes/'' @ i, body = NoBody, bearer = token s\<rparr>;
                res = api_del rq
            in if \<not> ok res
               then ([rq], s\<lparr>err := Some (or_default (error res) ''Failed to delete note'')\<rparr>)
               else
                 (case filter (\<lambda>n. note_id n \<noteq> i) (notesSig s) of
                    [] \<Rightarrow> ([rq], s\<lparr>notesSig := [], activeId := None,
                                   titleSig := [], contentSig := []\<rparr>)
                  | first # rest \<Rightarrow>
                      ([rq], s\<lparr>notesSig := first # rest,
                               activeId := Some (note_id first),
                               titleSig := title first,
                               contentSig := content first\<rparr>)))"

subsection \<open>The sidebar\<close>



subsection \<open>The authentication overlay\<close>

datatype auth_mode = Login | Register

text \<open>
  The signals \<open>auth.token\<close> and \<open>auth.user\<close> of the auth provider, the local storage of
  the browser, and the signals of the overlay. The overlay's \<open>error\<close> and \<open>loading\<close> are
  named \<open>errorSig\<close> and \<open>loadingSig\<close>, since the names are taken above.
\<close>

record auth_state =
  auth_token :: "string option"
  auth_user :: "User option"
  localStorage :: "string \<rightharpoonup> string"
  mode :: auth_mode
  email :: string
  password :: string
  errorSig :: "string option"
  loadingSig :: bool

text \<open>\<open>api.post(path, {email: email.value.trim(), password: password.value})\<close>.\<close>

abbreviation auth_post :: "(string \<Rightarrow> string) \<Rightarrow> auth_state \<Rightarrow> request" where
  "auth_post trim s \<equiv>
     \<lparr>meth = POST, path = (if mode s = Login then ''/auth/login'' else ''/auth/register''),
      body = CredBody \<lparr>cred_email = trim (email s), cred_password = password s\<rparr>,
      bearer = None\<rparr>"

text \<open>
  \<open>submit$\<close>: POST the credentials to /auth/login or /auth/register; on failure
  (\<open>!res.ok || !res.data\<close>) set the error text, on success set token and user and, in a
  browser (\<open>typeof window !== "undefined"\<close>, the parameter \<open>has_window\<close>), store both.
\<close>

definition submit ::
  "(string \<Rightarrow> string) \<Rightarrow> (User \<Rightarrow> string) \<Rightarrow> bool \<Rightarrow> (request \<Rightarrow> AuthData api_result)
     \<Rightarrow> auth_state \<Rightarrow> request list \<times> auth_state" where
  "submit trim stringify has_window api_post s =
     (let cred = \<lparr>cred_email = trim (email s), cred_password = password s\<rparr>;
          p = (if mode s = Login then ''/auth/login'' else ''/auth/register'');
          rq = \<lparr>meth = POST, path = p, body = CredBody cred, bearer = None\<rparr>;
          res = api_post rq;
          s1 = s\<lparr>loadingSig := False, errorSig := None\<rparr>
      in case (if ok res then data res else None) of
           None \<Rightarrow>
             ([rq], s1\<lparr>errorSig := Some (or_default (error res) ''Authentication failed'')\<rparr>)
         | Some d \<Rightarrow>
             let s2 = s1\<lparr>auth_token := Some (resp_token d), auth_user := Some (resp_user d)\<rparr>
             in if has_window
                then ([rq], s2\<lparr>localStorage :=
                               (localStorage s2)(''auth_token'' \<mapsto> resp_token d,
                                                 ''auth_user'' \<mapsto> stringify (resp_user d))\<rparr>)
                else ([rq], s2))"

text \<open>
  Modelled from the spec: the auth state holder (\<open>useAuthProvider\<close> of \<open>~/lib/auth\<close>) is
  not among the sources. The spec: the session is "persisted under two local-storage keys
  (\<open>auth_token\<close>, \<open>auth_user\<close>) and restored at startup; absence of either invalidates the
  session", and "restoring from local storage with a valid token+user populates the
  session without a network call". The stored user is read back by \<open>parseUser\<close>
  (\<open>None\<close> when the text is not a user); the spec does not say what a stored user that is
  not well-formed does, and the session is left unset then.
\<close>

definition restoreSession ::
  "(string \<Rightarrow> User option) \<Rightarrow> auth_state \<Rightarrow> request list \<times> auth_state" where
  "restoreSession parseUser s =
     (case localStorage s ''auth_token'' of
        None \<Rightarrow> ([], s\<lparr>auth_token := None, auth_user := None\<rparr>)
      | Some t \<Rightarrow>
          (case localStorage s ''auth_user'' of
             None \<Rightarrow> ([], s\<lparr>auth_token := None, auth_user := None\<rparr>)
           | Some u \<Rightarrow>
               (case parseUser u of
                  None \<Rightarrow> ([], s\<lparr>auth_token := None, auth_user := None\<rparr>)
                | Some usr \<Rightarrow> ([], s\<lparr>auth_token := Some t, auth_user := Some usr\<rparr>))))"

subsection \<open>Sample data\<close>

text \<open>
  The values of \<open>new Date(s).getTime()\<close> on the strings of the examples: two ISO-8601
  timestamps a day apart, and \<open>NaN\<close> on everything else.
\<close>

definition sample_getTime :: "string \<Rightarrow> int option" where
  "sample_getTime s =
     (if s = ''2024-05-02T10:00:00.000Z'' then Some 1714644000000
      else if s = ''2024-05-01T10:00:00.000Z'' then Some 1714557600000
      else None)"

text \<open>\<open>trim\<close> and \<open>toLowerCase\<close> on strings of ASCII letters and spaces.\<close>

definition sample_trim :: "string \<Rightarrow> string" where
  "sample_trim s = rev (dropWhile (\<lambda>c. c = CHR '' '') (rev (dropWhile (\<lambda>c. c = CHR '' '') s)))"


definition note_old :: Note where
  "note_old = \<lparr>note_id = ''n1'', title = ''Groceries'', content = ''Milk and eggs'',
                created_at = ''2024-05-01T10:00:00.000Z'',
                updated_at = ''2024-05-01T10:00:00.000Z''\<rparr>"

definition note_new :: Note where
  "note_new = \<lparr>note_id = ''n2'', title = ''Untitled'', content = [],
                created_at = ''2024-05-02T10:00:00.000Z'',
                updated_at = ''2024-05-02T10:00:00.000Z''\<rparr>"

definition note_bad :: Note where
  "note_bad = \<lparr>note_id = ''n3'', title = ''Draft'', content = ''To do'',
                created_at = ''yesterday'', updated_at = ''yesterday''\<rparr>"

text \<open>The page after login, before the first load, and with one note loaded and active.\<close>

definition state_empty :: app_state where
  "state_empty = \<lparr>token = Some ''tok'', notesSig = [], loading = False, err = None,
                   query = [], activeId = None, titleSig = [], contentSig = []\<rparr>"

definition state_one :: app_state where
  "state_one = \<lparr>token = Some ''tok'', notesSig = [note_new], loading = False, err = None,
                 query = [], activeId = Some ''n2'', titleSig = ''Untitled'', contentSig = []\<rparr>"

definition state_two :: app_state where
  "state_two = \<lparr>token = Some ''tok'', notesSig = [note_new, note_old], loading = False,
                 err = None, query = ''milk'', activeId = Some ''n2'',
                 titleSig = ''  Plan  '', contentSig = ''Buy paint''\<rparr>"

text \<open>A third note, as old as \<open>note_old\<close>, and the page with the three notes, sorted.\<close>

definition note_draft :: Note where
  "note_draft = \<lparr>note_id = ''n4'', title = ''Untitled'', content = [],
                  created_at = ''2024-05-01T10:00:00.000Z'',
                  updated_at = ''2024-05-01T10:00:00.000Z''\<rparr>"

definition state_three :: app_state where
  "state_three = \<lparr>token = Some ''tok'', notesSig = [note_new, note_draft, note_old],
                   loading = False, err = None, query = [], activeId = Some ''n2'',
                   titleSig = ''Untitled'', contentSig = []\<rparr>"






text \<open>A user, the text stored for it, and the overlay before and after a login.\<close>

definition sample_user :: User where
  "sample_user = \<lparr>user_id = ''u1'', user_email = ''ann@example.com''\<rparr>"

definition quoted :: "string \<Rightarrow> string" where
  "quoted s = CHR 0x22 # s @ [CHR 0x22]"

definition sample_stringify :: "User \<Rightarrow> string" where
  "sample_stringify u =
     ''{'' @ quoted ''id'' @ '':'' @ quoted (user_id u) @ '','' @ quoted ''email'' @ '':''
       @ quoted (user_email u) @ ''}''"

definition sample_parseUser :: "string \<Rightarrow> User option" where
  "sample_parseUser t = (if t = sample_stringify sample_user then Some sample_user else None)"

definition auth_start :: auth_state where
  "auth_start = \<lparr>auth_token = None, auth_user = None, localStorage = Map.empty, mode = Login,
                  email = '' ann@example.com'', password = ''secret'', errorSig = None,
                  loadingSig = False\<rparr>"

definition auth_stored :: auth_state where
  "auth_stored = auth_start\<lparr>localStorage :=
                   [''auth_token'' \<mapsto> ''tok'', ''auth_user'' \<mapsto> sample_stringify sample_user]\<rparr>"

text \<open>A server that answers every request with the same success, or the same failure.\<close>

definition api_ok :: "'a \<Rightarrow> request \<Rightarrow> 'a api_result" where
  "api_ok d rq = \<lparr>ok = True, data = Some d, error = None\<rparr>"

definition api_fail :: "string option \<Rightarrow> request \<Rightarrow> 'a api_result" where
  "api_fail e rq = \<lparr>ok = False, data = None, error = e\<rparr>"

section \<open>Properties\<close>

subsection \<open>Unfolding the sample data and the operators\<close>

lemmas sample_defs = sample_getTime_def note_old_def note_new_def note_bad_def
  state_empty_def state_one_def state_two_def api_ok_def api_fail_def sample_user_def
  quoted_def sample_stringify_def sample_parseUser_def auth_start_def auth_stored_def
  note_draft_def state_three_def

lemmas op_defs = truthy_def or_default_def compareFn_def sortCompare_def js_sort_def
  not_older_def valid_times_def

subsection \<open>The sort\<close>

text \<open>The sort keeps the notes it is given, and orders them when every date is valid.\<close>

lemma set_insert_sorted: "set (insert_sorted cmp x ys) = insert x (set ys)"
  by (induction ys) auto

lemma set_js_sort: "set (js_sort cmp xs) = set xs"
  unfolding js_sort_def by (induction xs) (simp_all add: set_insert_sorted)

lemma length_insert_sorted: "length (insert_sorted cmp x ys) = Suc (length ys)"
  by (induction ys) auto

lemma length_js_sort: "length (js_sort cmp xs) = length xs"
  unfolding js_sort_def by (induction xs) (simp_all add: length_insert_sorted)

lemma valid_times_Cons: "valid_times tm (x # xs) = (tm (updated_at x) \<noteq> None \<and> valid_times tm xs)"
  by (simp add: valid_times_def)

lemma valid_times_iff: "valid_times tm xs = (\<forall>n\<in>set xs. tm (updated_at n) \<noteq> None)"
  by (simp add: valid_times_def list_all_iff)

lemma sorted_desc_Cons:
  "sorted_desc tm (a # ns) = (case ns of [] \<Rightarrow> True | b # r \<Rightarrow> not_older tm a b \<and> sorted_desc tm ns)"
  by (cases ns) simp_all

lemma hd_insert_sorted:
  "hd (insert_sorted cmp x ys) = x \<or> (ys \<noteq> [] \<and> hd (insert_sorted cmp x ys) = hd ys)"
  by (cases ys) auto

lemma insert_sorted_nonempty: "insert_sorted cmp x ys \<noteq> []"
  by (cases ys) auto

lemma sorted_desc_hd:
  "sorted_desc tm (a # ns) = ((ns = [] \<or> not_older tm a (hd ns)) \<and> sorted_desc tm ns)"
  by (cases ns) auto

lemma sorted_insert_sorted:
  "tm (updated_at x) \<noteq> None \<Longrightarrow> valid_times tm ys \<Longrightarrow> sorted_desc tm ys
   \<Longrightarrow> sorted_desc tm (insert_sorted (compareFn tm) x ys)"
proof (induction ys)
  case Nil
  then show ?case by simp
next
  case (Cons y ys)
  from Cons.prems obtain tx ty where tx: "tm (updated_at x) = Some tx" and ty: "tm (updated_at y) = Some ty"
    by (auto simp: valid_times_Cons)
  show ?case
  proof (cases "sortCompare (compareFn tm) x y \<le> 0")
    case True
    then have "not_older tm x y" by (simp add: sortCompare_def compareFn_def not_older_def tx ty)
    with True Cons.prems show ?thesis by simp
  next
    case False
    then have lt: "not_older tm y x" by (simp add: sortCompare_def compareFn_def not_older_def tx ty)
    have ih: "sorted_desc tm (insert_sorted (compareFn tm) x ys)"
      using Cons by (simp add: valid_times_Cons sorted_desc_hd)
    have "not_older tm y (hd (insert_sorted (compareFn tm) x ys))"
      using hd_insert_sorted[of "compareFn tm" x ys] lt Cons.prems(3)
      by (auto simp: sorted_desc_hd)
    with ih False show ?thesis by (simp add: sorted_desc_hd insert_sorted_nonempty)
  qed
qed

lemma sorted_js_sort:
  "valid_times tm xs \<Longrightarrow> sorted_desc tm (js_sort (compareFn tm) xs)"
proof (induction xs)
  case Nil
  then show ?case by (simp add: js_sort_def)
next
  case (Cons x xs)
  have v: "valid_times tm (js_sort (compareFn tm) xs)"
    using Cons.prems by (simp add: valid_times_iff set_js_sort)
  have "js_sort (compareFn tm) (x # xs) = insert_sorted (compareFn tm) x (js_sort (compareFn tm) xs)"
    by (simp add: js_sort_def)
  with Cons v show ?case by (simp add: valid_times_Cons sorted_insert_sorted)
qed

lemma not_sorted_invalid:
  "n \<in> set ns \<Longrightarrow> tm (updated_at n) = None \<Longrightarrow> 2 \<le> length ns \<Longrightarrow> \<not> sorted_desc tm ns"
proof (induction tm ns rule: sorted_desc.induct)
  case (1 tm a b ns)
  then show ?case by (cases ns) (auto simp: not_older_def split: option.splits)
qed simp_all

lemma valid_times_map_replace:
  "valid_times tm ns \<Longrightarrow> tm (updated_at u) \<noteq> None
   \<Longrightarrow> valid_times tm (map (\<lambda>n. if note_id n = note_id u then u else n) ns)"
  by (induction ns) (simp_all add: valid_times_def)

subsection \<open>Order of the list after load, update and create\<close>

text \<open>
  Claim C1, as the code has it. After a successful load (GET /notes), the list is sorted
  in descending order of \<open>updated_at\<close>, whatever the order of the notes the server
  returns, when every \<open>updated_at\<close> returned is a valid date. After a successful update
  (PUT /notes/:id returning a note), the list is sorted in descending order of
  \<open>updated_at\<close>, when the \<open>updated_at\<close> of the note returned and of every note of the
  list is a valid date. A successful create (POST /notes returning a note) does not sort:
  the new list is the note returned followed by the previous list, and it is sorted
  exactly when the previous list is sorted and the note returned is not older than the
  previous first note.
\<close>

theorem sorted_after_load_update_create:
  "(loadNotes getTime api_get s = ([rq], s1) \<and> ok (api_get rq)
      \<and> (\<forall>d. data (api_get rq) = Some d \<longrightarrow> valid_times getTime d)
    \<longrightarrow> sorted_desc getTime (notesSig s1))
   \<and> (truthy (activeId s) \<and> fst (saveNote getTime trim api_post api_put s) = [rq2]
      \<and> ok (api_put rq2) \<and> data (api_put rq2) = Some u
      \<and> valid_times getTime (u # notesSig s)
    \<longrightarrow> (\<exists>s2. snd (saveNote getTime trim api_post api_put s) = Inr s2
             \<and> sorted_desc getTime (notesSig s2)))
   \<and> (fst (newNote api_post s) = [rq3] \<and> ok (api_post rq3) \<and> data (api_post rq3) = Some d
    \<longrightarrow> (\<exists>s3. snd (newNote api_post s) = Inr s3
             \<and> notesSig s3 = d # notesSig s
             \<and> (sorted_desc getTime (notesSig s3)
                  \<longleftrightarrow> (notesSig s = [] \<or> not_older getTime d (hd (notesSig s)))
                       \<and> sorted_desc getTime (notesSig s))))"
proof (intro conjI impI)
  assume a: "loadNotes getTime api_get s = ([rq], s1) \<and> ok (api_get rq)
      \<and> (\<forall>d. data (api_get rq) = Some d \<longrightarrow> valid_times getTime d)"
  let ?ds = "case data (api_get rq) of None \<Rightarrow> [] | Some d \<Rightarrow> d"
  have v: "valid_times getTime ?ds"
    using a by (cases "data (api_get rq)") (simp_all add: valid_times_def)
  have tk: "truthy (token s)"
    using a by (auto simp: loadNotes_def split: if_splits)
  have rq: "rq = \<lparr>meth = GET, path = ''/notes'', body = NoBody, bearer = token s\<rparr>"
    using a tk by (auto simp: loadNotes_def Let_def split: if_splits list.splits)
  have "notesSig s1 = js_sort (compareFn getTime) ?ds"
    using a tk unfolding rq by (auto simp: loadNotes_def Let_def split: if_splits list.splits)
  with v show "sorted_desc getTime (notesSig s1)"
    by (simp add: sorted_js_sort)
next
  assume a: "truthy (activeId s) \<and> fst (saveNote getTime trim api_post api_put s) = [rq2]
      \<and> ok (api_put rq2) \<and> data (api_put rq2) = Some u
      \<and> valid_times getTime (u # notesSig s)"
  let ?rq = "\<lparr>meth = PUT, path = ''/notes/'' @ (case activeId s of Some i \<Rightarrow> i | None \<Rightarrow> []),
         body = NoteBody \<lparr>in_title = (if trim (titleSig s) = [] then ''Untitled'' else trim (titleSig s)),
                     in_content = contentSig s\<rparr>, bearer = token s\<rparr>"
  have rq: "rq2 = ?rq"
    using a by (auto simp: saveNote_def Let_def split: if_splits option.splits)
  have v: "valid_times getTime (map (\<lambda>n. if note_id n = note_id u then u else n) (notesSig s))"
    using a by (simp add: valid_times_Cons valid_times_map_replace)
  have "snd (saveNote getTime trim api_post api_put s)
        = Inr (s\<lparr>notesSig := js_sort (compareFn getTime)
                   (map (\<lambda>n. if note_id n = note_id u then u else n) (notesSig s)),
                 titleSig := title u, contentSig := content u\<rparr>)"
    using a unfolding rq by (simp add: saveNote_def Let_def)
  with v show "\<exists>s2. snd (saveNote getTime trim api_post api_put s) = Inr s2
             \<and> sorted_desc getTime (notesSig s2)"
    by (simp add: sorted_js_sort)
next
  assume a: "fst (newNote api_post s) = [rq3] \<and> ok (api_post rq3) \<and> data (api_post rq3) = Some d"
  have rq: "rq3 = \<lparr>meth = POST, path = ''/notes'',
        body = NoteBody \<lparr>in_title = ''Untitled'', in_content = []\<rparr>, bearer = token s\<rparr>"
    using a by (auto simp: newNote_def Let_def split: if_splits option.splits)
  have "snd (newNote api_post s) = Inr (s\<lparr>notesSig := d # notesSig s,
            activeId := Some (note_id d), titleSig := title d, contentSig := content d\<rparr>)"
    using a unfolding rq by (simp add: newNote_def Let_def)
  then show "\<exists>s3. snd (newNote api_post s) = Inr s3
             \<and> notesSig s3 = d # notesSig s
             \<and> (sorted_desc getTime (notesSig s3)
                  \<longleftrightarrow> (notesSig s = [] \<or> not_older getTime d (hd (notesSig s)))
                       \<and> sorted_desc getTime (notesSig s))"
    by (simp add: sorted_desc_hd)
qed

theorem sorted_after_load_update_create_witness:
  "loadNotes sample_getTime (api_ok [note_old, note_new]) state_one
     = ([\<lparr>meth = GET, path = ''/notes'', body = NoBody, bearer = Some ''tok''\<rparr>],
        state_one\<lparr>notesSig := [note_new, note_old]\<rparr>)
   \<and> valid_times sample_getTime [note_old, note_new]
   \<and> sorted_desc sample_getTime [note_new, note_old]
   \<and> truthy (activeId state_one)
   \<and> valid_times sample_getTime (note_new # notesSig state_one)
   \<and> saveNote sample_getTime sample_trim (api_ok note_new) (api_ok note_new) state_one
     = ([\<lparr>meth = PUT, path = ''/notes/n2'',
          body = NoteBody \<lparr>in_title = ''Untitled'', in_content = []\<rparr>, bearer = Some ''tok''\<rparr>],
        Inr state_one)
   \<and> sorted_desc sample_getTime (notesSig state_one)
   \<and> newNote (api_ok note_new) state_one
     = ([\<lparr>meth = POST, path = ''/notes'',
          body = NoteBody \<lparr>in_title = ''Untitled'', in_content = []\<rparr>, bearer = Some ''tok''\<rparr>],
        Inr (state_one\<lparr>notesSig := [note_new, note_new]\<rparr>))
   \<and> not_older sample_getTime note_new (hd (notesSig state_one))
   \<and> sorted_desc sample_getTime [note_new, note_new]"
  using sorted_after_load_update_create
    [where getTime = sample_getTime and api_get = "api_ok [note_old, note_new]"
       and s = state_one
       and rq = "\<lparr>meth = GET, path = ''/notes'', body = NoBody, bearer = Some ''tok''\<rparr>"
       and ?s1.0 = "state_one\<lparr>notesSig := [note_new, note_old]\<rparr>"
       and trim = sample_trim and api_post = "api_ok note_new" and api_put = "api_ok note_new"
       and ?rq2.0 = "\<lparr>meth = PUT, path = ''/notes/n2'',
          body = NoteBody \<lparr>in_title = ''Untitled'', in_content = []\<rparr>, bearer = Some ''tok''\<rparr>"
       and u = note_new
       and ?rq3.0 = "\<lparr>meth = POST, path = ''/notes'',
          body = NoteBody \<lparr>in_title = ''Untitled'', in_content = []\<rparr>, bearer = Some ''tok''\<rparr>"
       and d = note_new]
  by (simp add: loadNotes_def saveNote_def newNote_def sample_defs op_defs sample_trim_def Let_def)

text \<open>
  Claim C1 as stated fails twice. With the list \<open>[note_new]\<close>, a create to which the
  server answers with the older \<open>note_old\<close> gives \<open>[note_old, note_new]\<close>, which is not in
  descending order. A load to which the server answers with a note whose \<open>updated_at\<close>
  is not a date gives a list that holds it beside another note, and no comparison with
  \<open>NaN\<close> holds.
\<close>

theorem create_not_sorted_counterexample:
  "snd (newNote (api_ok note_old) state_one)
     = Inr (state_one\<lparr>notesSig := [note_old, note_new], activeId := Some ''n1'',
                      titleSig := ''Groceries'', contentSig := ''Milk and eggs''\<rparr>)
   \<and> \<not> sorted_desc sample_getTime [note_old, note_new]
   \<and> snd (loadNotes sample_getTime (api_ok [note_new, note_bad]) state_empty)
     = state_empty\<lparr>notesSig := [note_new, note_bad], activeId := Some ''n2'',
                    titleSig := ''Untitled'', contentSig := []\<rparr>
   \<and> \<not> sorted_desc sample_getTime [note_new, note_bad]"
  by (simp add: loadNotes_def newNote_def sample_defs op_defs Let_def)

subsection \<open>Delete\<close>

text \<open>A list in descending order stays so when notes are dropped, and its head is newest.\<close>

lemma not_older_trans: "not_older tm a b \<Longrightarrow> not_older tm b c \<Longrightarrow> not_older tm a c"
  by (auto simp: not_older_def split: option.splits)

lemma sorted_desc_sorted_wrt: "sorted_desc tm ns \<longleftrightarrow> sorted_wrt (not_older tm) ns"
proof (induction tm ns rule: sorted_desc.induct)
  case (1 tm a b ns)
  then show ?case by (auto intro: not_older_trans)
qed simp_all

lemma sorted_desc_filter: "sorted_desc tm ns \<Longrightarrow> sorted_desc tm (filter p ns)"
  by (simp add: sorted_desc_sorted_wrt sorted_wrt_filter)

lemma sorted_desc_head_newest:
  "sorted_desc tm (first # rest) \<Longrightarrow> list_all (not_older tm first) rest"
  by (simp add: sorted_desc_sorted_wrt list_all_iff)

text \<open>
  Claim C2, as the code has it. In a state with an active note (\<open>activeId\<close> holds a
  non-empty id \<open>i\<close>), when the DELETE call succeeds: exactly that one call is made; the
  list afterwards is the list before without the notes of id \<open>i\<close>, in the same order, so
  no note of id \<open>i\<close> is left; when notes remain, the first of them in list order is the
  active note and fills the editor; when none remains, \<open>activeId\<close> is \<open>null\<close> and the
  editor title and content are empty. The tracked task, run on the new state, changes
  nothing. When the list before is sorted in descending order of \<open>updated_at\<close>, the list
  afterwards is sorted too, and the note made active is not older than any other note
  left: list order is then sort order.
\<close>

theorem delete_promotes_first_remaining:
  assumes "activeId s = Some i" and "i \<noteq> []" and "ok (api_del (notes_delete i s))"
  shows "\<exists>s'. deleteNote api_del s = ([notes_delete i s], s')
            \<and> notesSig s' = filter (\<lambda>n. note_id n \<noteq> i) (notesSig s)
            \<and> list_all (\<lambda>n. note_id n \<noteq> i) (notesSig s')
            \<and> (case notesSig s' of
                  [] \<Rightarrow> activeId s' = None \<and> titleSig s' = [] \<and> contentSig s' = []
                | first # rest \<Rightarrow> activeId s' = Some (note_id first)
                    \<and> titleSig s' = title first \<and> contentSig s' = content first)
            \<and> syncEditor s' = s'
            \<and> (sorted_desc getTime (notesSig s)
                 \<longrightarrow> sorted_desc getTime (notesSig s')
                     \<and> (case notesSig s' of
                           [] \<Rightarrow> True
                         | first # rest \<Rightarrow> list_all (not_older getTime first) rest))"
proof (cases "filter (\<lambda>n. note_id n \<noteq> i) (notesSig s)")
  case Nil
  with assms show ?thesis
    by (simp add: deleteNote_def Let_def syncEditor_def)
next
  case (Cons first rest)
  have "list_all (\<lambda>n. note_id n \<noteq> i) (filter (\<lambda>n. note_id n \<noteq> i) (notesSig s))"
    by (simp add: list_all_iff)
  with Cons have ids: "list_all (\<lambda>n. note_id n \<noteq> i) (first # rest)" by simp
  have srt: "sorted_desc getTime (first # rest) \<and> list_all (not_older getTime first) rest"
    if "sorted_desc getTime (notesSig s)"
  proof -
    from that have "sorted_desc getTime (filter (\<lambda>n. note_id n \<noteq> i) (notesSig s))"
      by (rule sorted_desc_filter)
    with Cons have "sorted_desc getTime (first # rest)" by simp
    then show ?thesis by (simp add: sorted_desc_head_newest)
  qed
  from assms Cons ids srt show ?thesis
    by (simp add: deleteNote_def Let_def syncEditor_def)
qed

theorem delete_promotes_first_remaining_witness:
  "activeId state_three = Some ''n2'' \<and> ok (api_ok () (notes_delete ''n2'' state_three))
   \<and> sorted_desc sample_getTime (notesSig state_three)
   \<and> deleteNote (api_ok ()) state_three
       = ([notes_delete ''n2'' state_three],
          state_three\<lparr>notesSig := [note_draft, note_old], activeId := Some ''n4'',
                       titleSig := ''Untitled'', contentSig := []\<rparr>)
   \<and> sorted_desc sample_getTime [note_draft, note_old]
   \<and> not_older sample_getTime note_draft note_old
   \<and> deleteNote (api_ok ()) state_one
       = ([notes_delete ''n2'' state_one],
          state_one\<lparr>notesSig := [], activeId := None, titleSig := [], contentSig := []\<rparr>)"
  using delete_promotes_first_remaining [of state_three "''n2''" "api_ok ()" sample_getTime]
    delete_promotes_first_remaining [of state_one "''n2''" "api_ok ()" sample_getTime]
  by (simp add: deleteNote_def sample_defs not_older_def Let_def)

text \<open>
  Claim C2 as stated fails where list order is not sort order. From the sorted list
  \<open>[note_new]\<close>, a create answered with the older \<open>note_old\<close> and a create answered with
  \<open>note_draft\<close> give the list \<open>[note_draft, note_old, note_new]\<close> with \<open>note_draft\<close>
  active; deleting it makes \<open>note_old\<close> the active note, while the newer \<open>note_new\<close>
  is left in the list.
\<close>

theorem delete_promotes_older_note_counterexample:
  "sorted_desc sample_getTime (notesSig state_one)
   \<and> snd (newNote (api_ok note_old) state_one)
       = Inr (state_one\<lparr>notesSig := [note_old, note_new], activeId := Some ''n1'',
                         titleSig := ''Groceries'', contentSig := ''Milk and eggs''\<rparr>)
   \<and> snd (newNote (api_ok note_draft)
            (state_one\<lparr>notesSig := [note_old, note_new], activeId := Some ''n1'',
                        titleSig := ''Groceries'', contentSig := ''Milk and eggs''\<rparr>))
       = Inr (state_one\<lparr>notesSig := [note_draft, note_old, note_new], activeId := Some ''n4'',
                         titleSig := ''Untitled'', contentSig := []\<rparr>)
   \<and> deleteNote (api_ok ())
         (state_one\<lparr>notesSig := [note_draft, note_old, note_new], activeId := Some ''n4'',
                     titleSig := ''Untitled'', contentSig := []\<rparr>)
       = ([notes_delete ''n4'' state_one],
          state_one\<lparr>notesSig := [note_old, note_new], activeId := Some ''n1'',
                     titleSig := ''Groceries'', contentSig := ''Milk and eggs''\<rparr>)
   \<and> note_id note_old = ''n1''
   \<and> sample_getTime (updated_at note_old) = Some 1714557600000
   \<and> sample_getTime (updated_at note_new) = Some 1714644000000
   \<and> \<not> not_older sample_getTime note_old note_new"
  by (simp add: newNote_def deleteNote_def sample_defs not_older_def Let_def)

subsection \<open>Create\<close>

text \<open>
  Claim C3. When POST /notes succeeds and returns a note: exactly that one call is made;
  the note returned is the head of the list and the rest is the previous list; its id is
  the active id; the editor fields are its title and content. The tracked task, run on
  the new state, changes nothing.
\<close>

theorem create_prepends_and_selects:
  assumes "ok (api_post (notes_post s))" and "data (api_post (notes_post s)) = Some d"
  shows "\<exists>s'. newNote api_post s = ([notes_post s], Inr s')
            \<and> notesSig s' = d # notesSig s
            \<and> activeId s' = Some (note_id d)
            \<and> titleSig s' = title d \<and> contentSig s' = content d
            \<and> syncEditor s' = s'"
  using assms by (simp add: newNote_def Let_def syncEditor_def)

theorem create_prepends_and_selects_witness:
  "ok (api_ok note_old (notes_post state_one))
   \<and> data (api_ok note_old (notes_post state_one)) = Some note_old
   \<and> newNote (api_ok note_old) state_one
       = ([notes_post state_one],
          Inr (state_one\<lparr>notesSig := [note_old, note_new], activeId := Some ''n1'',
                          titleSig := ''Groceries'', contentSig := ''Milk and eggs''\<rparr>))"
  using create_prepends_and_selects [of "api_ok note_old" state_one note_old]
  by (simp add: newNote_def sample_defs Let_def)

subsection \<open>Save and delete without an active note\<close>

text \<open>
  Claim C8. When no note is active (\<open>activeId\<close> is \<open>null\<close>, or the empty string, which
  JavaScript reads as false too): save is the create operation, its only request is
  POST /notes with title "Untitled" and empty content, and no PUT is issued; delete
  issues no request and returns the state as it was.
\<close>

theorem save_and_delete_without_active_note:
  assumes "\<not> truthy (activeId s)"
  shows "saveNote getTime trim api_post api_put s = newNote api_post s
         \<and> fst (saveNote getTime trim api_post api_put s) = [notes_post s]
         \<and> list_all (\<lambda>rq. meth rq \<noteq> PUT) (fst (saveNote getTime trim api_post api_put s))
         \<and> deleteNote api_del s = ([], s)"
  using assms
  by (auto simp: saveNote_def newNote_def deleteNote_def truthy_def Let_def
           split: option.splits)

theorem save_and_delete_without_active_note_witness:
  "activeId state_empty = None \<and> \<not> truthy (activeId state_empty)
   \<and> saveNote sample_getTime sample_trim (api_ok note_new) (api_ok note_old) state_empty
       = ([notes_post state_empty],
          Inr (state_empty\<lparr>notesSig := [note_new], activeId := Some ''n2'',
                            titleSig := ''Untitled'', contentSig := []\<rparr>))
   \<and> deleteNote (api_ok ()) state_empty = ([], state_empty)"
  using save_and_delete_without_active_note
    [of state_empty sample_getTime sample_trim "api_ok note_new" "api_ok note_old" "api_ok ()"]
  by (simp add: newNote_def sample_defs truthy_def Let_def)

subsection \<open>The bodies of PUT and POST\<close>

text \<open>
  Claim C9. A save of the active note of id \<open>i\<close> issues exactly PUT /notes/i, whatever
  the server answers; the title of its body is the trimmed editor title, replaced by
  "Untitled" when the trimmed title is empty, and the content of its body is the editor
  content as it is. A create issues exactly POST /notes with title "Untitled" and empty
  content, in every state.
\<close>

theorem save_sends_trimmed_title:
  assumes "activeId s = Some i" and "i \<noteq> []"
  shows "fst (saveNote getTime trim api_post api_put s) = [notes_put trim i s]
         \<and> body (notes_put trim i s)
             = NoteBody \<lparr>in_title = (if trim (titleSig s) = [] then ''Untitled''
                                      else trim (titleSig s)),
                         in_content = contentSig s\<rparr>
         \<and> fst (newNote api_post s0)
             = [\<lparr>meth = POST, path = ''/notes'',
                 body = NoteBody \<lparr>in_title = ''Untitled'', in_content = []\<rparr>,
                 bearer = token s0\<rparr>]"
  using assms
  by (simp add: saveNote_def newNote_def truthy_def Let_def split: option.splits)

theorem save_sends_trimmed_title_witness:
  "activeId state_two = Some ''n2''
   \<and> titleSig state_two = ''  Plan  ''
   \<and> fst (saveNote sample_getTime sample_trim (api_ok note_new) (api_fail None) state_two)
       = [\<lparr>meth = PUT, path = ''/notes/n2'',
           body = NoteBody \<lparr>in_title = ''Plan'', in_content = ''Buy paint''\<rparr>,
           bearer = Some ''tok''\<rparr>]
   \<and> fst (saveNote sample_getTime sample_trim (api_ok note_new) (api_fail None)
            (state_two\<lparr>titleSig := ''   ''\<rparr>))
       = [\<lparr>meth = PUT, path = ''/notes/n2'',
           body = NoteBody \<lparr>in_title = ''Untitled'', in_content = ''Buy paint''\<rparr>,
           bearer = Some ''tok''\<rparr>]"
  using save_sends_trimmed_title
    [of state_two "''n2''" sample_getTime sample_trim "api_ok note_new" "api_fail None" state_two]
    save_sends_trimmed_title
    [of "state_two\<lparr>titleSig := ''   ''\<rparr>" "''n2''" sample_getTime sample_trim
        "api_ok note_new" "api_fail None" state_two]
  by (simp add: sample_defs sample_trim_def)

subsection \<open>The tracked task\<close>

lemma find_first_None: "find_first p xs = None \<longleftrightarrow> (\<forall>x\<in>set xs. \<not> p x)"
  by (induction xs) auto

lemma find_first_Some: "find_first p xs = Some x \<Longrightarrow> x \<in> set xs \<and> p x"
  by (induction xs) (auto split: if_splits)

lemma find_first_unique:
  "distinct (map f xs) \<Longrightarrow> x \<in> set xs \<Longrightarrow> f x = k \<Longrightarrow> find_first (\<lambda>y. f y = k) xs = Some x"
  by (induction xs) (auto simp: image_iff)

text \<open>
  Claim C6. The task run when the active id changes sets the editor from the list: when
  a note of the list has the active id, the editor title and content are those of the
  first such note (of the only one, when the ids of the list are distinct); when no note
  of the list has the active id, and so when the active id is \<open>null\<close>, both editor fields
  are the empty string. The task leaves the list and the active id as they are.
\<close>

theorem editor_follows_active_id:
  "(\<forall>n. find_first (\<lambda>n0. Some (note_id n0) = activeId s) (notesSig s) = Some n
        \<longrightarrow> n \<in> set (notesSig s) \<and> Some (note_id n) = activeId s
            \<and> titleSig (syncEditor s) = title n \<and> contentSig (syncEditor s) = content n)
   \<and> ((\<exists>n\<in>set (notesSig s). Some (note_id n) = activeId s)
        \<longrightarrow> (\<exists>n\<in>set (notesSig s). Some (note_id n) = activeId s
               \<and> titleSig (syncEditor s) = title n \<and> contentSig (syncEditor s) = content n))
   \<and> (\<forall>n. distinct (map note_id (notesSig s)) \<and> n \<in> set (notesSig s)
            \<and> Some (note_id n) = activeId s
        \<longrightarrow> titleSig (syncEditor s) = title n \<and> contentSig (syncEditor s) = content n)
   \<and> ((\<forall>n\<in>set (notesSig s). Some (note_id n) \<noteq> activeId s)
        \<longrightarrow> titleSig (syncEditor s) = [] \<and> contentSig (syncEditor s) = [])
   \<and> (activeId s = None \<longrightarrow> titleSig (syncEditor s) = [] \<and> contentSig (syncEditor s) = [])
   \<and> notesSig (syncEditor s) = notesSig s \<and> activeId (syncEditor s) = activeId s"
proof -
  let ?p = "\<lambda>n0. Some (note_id n0) = activeId s"
  have found: "titleSig (syncEditor s) = title n \<and> contentSig (syncEditor s) = content n"
    if "find_first ?p (notesSig s) = Some n" for n
    using that by (simp add: syncEditor_def)
  have missing: "titleSig (syncEditor s) = [] \<and> contentSig (syncEditor s) = []"
    if "find_first ?p (notesSig s) = None"
    using that by (simp add: syncEditor_def)
  have frame: "notesSig (syncEditor s) = notesSig s \<and> activeId (syncEditor s) = activeId s"
    by (simp add: syncEditor_def split: option.splits)
  have c1: "\<forall>n. find_first ?p (notesSig s) = Some n
        \<longrightarrow> n \<in> set (notesSig s) \<and> Some (note_id n) = activeId s
            \<and> titleSig (syncEditor s) = title n \<and> contentSig (syncEditor s) = content n"
    using found find_first_Some[of ?p "notesSig s"] by blast
  have c2: "(\<exists>n\<in>set (notesSig s). Some (note_id n) = activeId s)
        \<longrightarrow> (\<exists>n\<in>set (notesSig s). Some (note_id n) = activeId s
               \<and> titleSig (syncEditor s) = title n \<and> contentSig (syncEditor s) = content n)"
  proof
    assume "\<exists>n\<in>set (notesSig s). Some (note_id n) = activeId s"
    then have "find_first ?p (notesSig s) \<noteq> None"
      by (simp add: find_first_None)
    then obtain m where "find_first ?p (notesSig s) = Some m" by blast
    with c1 show "\<exists>n\<in>set (notesSig s). Some (note_id n) = activeId s
               \<and> titleSig (syncEditor s) = title n \<and> contentSig (syncEditor s) = content n"
      by blast
  qed
  have c3: "\<forall>n. distinct (map note_id (notesSig s)) \<and> n \<in> set (notesSig s)
            \<and> Some (note_id n) = activeId s
        \<longrightarrow> titleSig (syncEditor s) = title n \<and> contentSig (syncEditor s) = content n"
  proof (intro allI impI)
    fix n
    assume a: "distinct (map note_id (notesSig s)) \<and> n \<in> set (notesSig s)
            \<and> Some (note_id n) = activeId s"
    then have "distinct (map (\<lambda>n. Some (note_id n)) (notesSig s))"
      by (simp add: distinct_map inj_on_def)
    with a have "find_first (\<lambda>y. Some (note_id y) = activeId s) (notesSig s) = Some n"
      using find_first_unique[of "\<lambda>n. Some (note_id n)" "notesSig s" n "activeId s"] by simp
    with found show "titleSig (syncEditor s) = title n \<and> contentSig (syncEditor s) = content n"
      by blast
  qed
  have c4: "(\<forall>n\<in>set (notesSig s). Some (note_id n) \<noteq> activeId s)
        \<longrightarrow> titleSig (syncEditor s) = [] \<and> contentSig (syncEditor s) = []"
    using missing by (simp add: find_first_None)
  have c5: "activeId s = None \<longrightarrow> titleSig (syncEditor s) = [] \<and> contentSig (syncEditor s) = []"
  proof
    assume "activeId s = None"
    then have "find_first ?p (notesSig s) = None" by (simp add: find_first_None)
    with missing show "titleSig (syncEditor s) = [] \<and> contentSig (syncEditor s) = []" by blast
  qed
  from c1 c2 c3 c4 c5 frame show ?thesis by blast
qed

theorem editor_follows_active_id_witness:
  "distinct (map note_id (notesSig (selectNote ''n1'' state_two)))
   \<and> note_old \<in> set (notesSig (selectNote ''n1'' state_two))
   \<and> Some (note_id note_old) = activeId (selectNote ''n1'' state_two)
   \<and> titleSig (syncEditor (selectNote ''n1'' state_two)) = ''Groceries''
   \<and> contentSig (syncEditor (selectNote ''n1'' state_two)) = ''Milk and eggs''
   \<and> list_all (\<lambda>n. Some (note_id n) \<noteq> activeId (selectNote ''n9'' state_two))
        (notesSig (selectNote ''n9'' state_two))
   \<and> titleSig (syncEditor (selectNote ''n9'' state_two)) = []
   \<and> contentSig (syncEditor (selectNote ''n9'' state_two)) = []"
proof -
  let ?s1 = "selectNote ''n1'' state_two" and ?s9 = "selectNote ''n9'' state_two"
  have h1: "distinct (map note_id (notesSig ?s1)) \<and> note_old \<in> set (notesSig ?s1)
            \<and> Some (note_id note_old) = activeId ?s1"
    by (simp add: selectNote_def state_two_def note_old_def note_new_def)
  have t: "title note_old = ''Groceries''" and c: "content note_old = ''Milk and eggs''"
    by (simp_all add: note_old_def)
  have h9: "list_all (\<lambda>n. Some (note_id n) \<noteq> activeId ?s9) (notesSig ?s9)"
    by (simp add: selectNote_def state_two_def note_old_def note_new_def)
  then have h9': "\<forall>n\<in>set (notesSig ?s9). Some (note_id n) \<noteq> activeId ?s9"
    by (simp only: list_all_iff)
  from editor_follows_active_id [of ?s1]
  have "\<forall>n. distinct (map note_id (notesSig ?s1)) \<and> n \<in> set (notesSig ?s1)
            \<and> Some (note_id n) = activeId ?s1
        \<longrightarrow> titleSig (syncEditor ?s1) = title n \<and> contentSig (syncEditor ?s1) = content n"
    by (elim conjE)
  then have "distinct (map note_id (notesSig ?s1)) \<and> note_old \<in> set (notesSig ?s1)
            \<and> Some (note_id note_old) = activeId ?s1
        \<longrightarrow> titleSig (syncEditor ?s1) = title note_old
            \<and> contentSig (syncEditor ?s1) = content note_old"
    by (rule spec)
  from this h1 have "titleSig (syncEditor ?s1) = title note_old
            \<and> contentSig (syncEditor ?s1) = content note_old"
    by (rule mp)
  then have r1: "titleSig (syncEditor ?s1) = ''Groceries''
            \<and> contentSig (syncEditor ?s1) = ''Milk and eggs''"
    by (simp only: t c)
  from editor_follows_active_id [of ?s9]
  have "(\<forall>n\<in>set (notesSig ?s9). Some (note_id n) \<noteq> activeId ?s9)
        \<longrightarrow> titleSig (syncEditor ?s9) = [] \<and> contentSig (syncEditor ?s9) = []"
    by (elim conjE)
  from this h9' have r9: "titleSig (syncEditor ?s9) = [] \<and> contentSig (syncEditor ?s9) = []"
    by (rule mp)
  from h1 r1 h9 r9 show ?thesis
    by (elim conjE) (intro conjI, assumption+)
qed

subsection \<open>The sidebar filter\<close>







subsection \<open>Failed calls\<close>

text \<open>\<open>e || d\<close> is \<open>d\<close> when \<open>e\<close> is absent and when \<open>e\<close> is the empty string.\<close>

lemma or_default_cases:
  "or_default e d = (case e of None \<Rightarrow> d | Some x \<Rightarrow> if x = [] then d else x)"
  by (simp add: or_default_def truthy_def split: option.splits)

text \<open>
  Claim C4, as the code has it. When the HTTP call of a load, create, update or delete
  fails (\<open>ok\<close> is false), the handler has made exactly that one call and the state
  afterwards is the state before but for the error signal (and, after a load, a cleared
  loading flag): the notes list, the active id and the editor are as they were. The
  error signal is the error string of the result when it is present and not empty, and
  the fixed message of the handler when it is absent or the empty string. A save without
  an active note fails as a create does.
\<close>

theorem failed_call_reports_error:
  "(truthy (token s) \<and> \<not> ok (api_get (notes_get s))
      \<longrightarrow> loadNotes getTime api_get s
            = ([notes_get s],
               s\<lparr>loading := False,
                 err := Some (or_default (error (api_get (notes_get s))) ''Failed to load notes'')\<rparr>))
   \<and> (\<not> ok (api_post (notes_post s))
      \<longrightarrow> newNote api_post s
            = ([notes_post s],
               Inr (s\<lparr>err := Some (or_default (error (api_post (notes_post s)))
                                     ''Failed to create note'')\<rparr>)))
   \<and> (\<not> truthy (activeId s) \<and> \<not> ok (api_post (notes_post s))
      \<longrightarrow> saveNote getTime trim api_post api_put s
            = ([notes_post s],
               Inr (s\<lparr>err := Some (or_default (error (api_post (notes_post s)))
                                     ''Failed to create note'')\<rparr>)))
   \<and> (activeId s = Some i \<and> i \<noteq> [] \<and> \<not> ok (api_put (notes_put trim i s))
      \<longrightarrow> saveNote getTime trim api_post api_put s
            = ([notes_put trim i s],
               Inr (s\<lparr>err := Some (or_default (error (api_put (notes_put trim i s)))
                                     ''Failed to save note'')\<rparr>)))
   \<and> (activeId s = Some i \<and> i \<noteq> [] \<and> \<not> ok (api_del (notes_delete i s))
      \<longrightarrow> deleteNote api_del s
            = ([notes_delete i s],
               s\<lparr>err := Some (or_default (error (api_del (notes_delete i s)))
                                ''Failed to delete note'')\<rparr>))
   \<and> or_default e d = (case e of None \<Rightarrow> d | Some x \<Rightarrow> if x = [] then d else x)"
proof (intro conjI impI)
  show "or_default e d = (case e of None \<Rightarrow> d | Some x \<Rightarrow> if x = [] then d else x)"
    by (rule or_default_cases)
qed (simp_all add: loadNotes_def newNote_def saveNote_def deleteNote_def truthy_def Let_def)

theorem failed_call_reports_error_witness:
  "truthy (token state_two) \<and> activeId state_two = Some ''n2''
   \<and> loadNotes sample_getTime (api_fail (Some ''Server down'')) state_two
       = ([notes_get state_two], state_two\<lparr>err := Some ''Server down''\<rparr>)
   \<and> newNote (api_fail (Some ''Server down'')) state_two
       = ([notes_post state_two], Inr (state_two\<lparr>err := Some ''Server down''\<rparr>))
   \<and> saveNote sample_getTime sample_trim (api_fail None) (api_fail None) state_empty
       = ([notes_post state_empty], Inr (state_empty\<lparr>err := Some ''Failed to create note''\<rparr>))
   \<and> saveNote sample_getTime sample_trim (api_fail None) (api_fail None) state_two
       = ([notes_put sample_trim ''n2'' state_two],
          Inr (state_two\<lparr>err := Some ''Failed to save note''\<rparr>))
   \<and> deleteNote (api_fail (Some ''Server down'')) state_two
       = ([notes_delete ''n2'' state_two], state_two\<lparr>err := Some ''Server down''\<rparr>)"
proof -
  have h: "truthy (token state_two) \<and> activeId state_two = Some ''n2''
           \<and> \<not> truthy (activeId state_empty)"
    by (simp add: state_two_def state_empty_def truthy_def)
  have r1: "loadNotes sample_getTime (api_fail (Some ''Server down'')) state_two
       = ([notes_get state_two], state_two\<lparr>err := Some ''Server down''\<rparr>)"
    using h failed_call_reports_error
      [where s = state_two and api_get = "api_fail (Some ''Server down'')"
         and getTime = sample_getTime]
    by (simp add: api_fail_def or_default_def truthy_def state_two_def)
  have r2: "newNote (api_fail (Some ''Server down'')) state_two
       = ([notes_post state_two], Inr (state_two\<lparr>err := Some ''Server down''\<rparr>))"
    using failed_call_reports_error
      [where s = state_two and api_post = "api_fail (Some ''Server down'')"]
    by (simp add: api_fail_def or_default_def truthy_def)
  have r3: "saveNote sample_getTime sample_trim (api_fail None) (api_fail None) state_empty
       = ([notes_post state_empty], Inr (state_empty\<lparr>err := Some ''Failed to create note''\<rparr>))"
    using h failed_call_reports_error
      [where s = state_empty and api_post = "api_fail None" and api_put = "api_fail None"
         and getTime = sample_getTime and trim = sample_trim]
    by (simp add: api_fail_def or_default_def truthy_def)
  have r4: "saveNote sample_getTime sample_trim (api_fail None) (api_fail None) state_two
       = ([notes_put sample_trim ''n2'' state_two],
          Inr (state_two\<lparr>err := Some ''Failed to save note''\<rparr>))"
    using h failed_call_reports_error
      [where s = state_two and api_post = "api_fail None" and api_put = "api_fail None"
         and getTime = sample_getTime and trim = sample_trim and i = "''n2''"]
    by (simp add: api_fail_def or_default_def truthy_def)
  have r5: "deleteNote (api_fail (Some ''Server down'')) state_two
       = ([notes_delete ''n2'' state_two], state_two\<lparr>err := Some ''Server down''\<rparr>)"
    using h failed_call_reports_error
      [where s = state_two and api_del = "api_fail (Some ''Server down'')" and i = "''n2''"]
    by (simp add: api_fail_def or_default_def truthy_def)
  from h r1 r2 r3 r4 r5 show ?thesis
    by (elim conjE) (intro conjI, assumption+)
qed

text \<open>
  Claim C4 as stated fails when the result carries the empty string as its error: the
  error signal is then the fixed message and not the error string of the result.
\<close>

theorem empty_error_string_counterexample:
  "error (api_fail (Some []) (notes_get state_two) :: Note list api_result) = Some []
   \<and> err (snd (loadNotes sample_getTime (api_fail (Some [])) state_two))
       = Some ''Failed to load notes''
   \<and> err (snd (deleteNote (api_fail (Some [])) state_two)) = Some ''Failed to delete note''"
  by (simp add: loadNotes_def deleteNote_def api_fail_def or_default_def truthy_def
        state_two_def Let_def)

subsection \<open>Failed login or registration\<close>

text \<open>
  Claim C5, as the code has it. When the call of a login or register submission fails
  (\<open>ok\<close> is false, or the result has no data), exactly that one call has been made,
  token and user are as they were, the local storage is as it was, and the error text
  of the overlay is the error string of the result when it is present and not empty,
  and "Authentication failed" when it is absent or the empty string.
\<close>

theorem failed_auth_leaves_session_unset:
  assumes "\<not> ok (api_post (auth_post trim s)) \<or> data (api_post (auth_post trim s)) = None"
  shows "\<exists>s'. submit trim stringify has_window api_post s = ([auth_post trim s], s')
            \<and> auth_token s' = auth_token s \<and> auth_user s' = auth_user s
            \<and> localStorage s' = localStorage s
            \<and> errorSig s'
                = Some (case error (api_post (auth_post trim s)) of
                          None \<Rightarrow> ''Authentication failed''
                        | Some x \<Rightarrow> if x = [] then ''Authentication failed'' else x)"
  using assms
  by (auto simp: submit_def Let_def or_default_cases split: option.splits)

theorem failed_auth_leaves_session_unset_witness:
  "\<not> ok (api_fail (Some ''Invalid credentials'') (auth_post sample_trim auth_start)
            :: AuthData api_result)
   \<and> submit sample_trim sample_stringify True (api_fail (Some ''Invalid credentials'')) auth_start
       = ([\<lparr>meth = POST, path = ''/auth/login'',
            body = CredBody \<lparr>cred_email = ''ann@example.com'', cred_password = ''secret''\<rparr>,
            bearer = None\<rparr>],
          auth_start\<lparr>errorSig := Some ''Invalid credentials''\<rparr>)
   \<and> auth_token auth_start = None \<and> auth_user auth_start = None"
proof -
  have ev: "\<not> ok (api_fail (Some ''Invalid credentials'') (auth_post sample_trim auth_start)
            :: AuthData api_result)
     \<and> auth_post sample_trim auth_start
       = \<lparr>meth = POST, path = ''/auth/login'',
            body = CredBody \<lparr>cred_email = ''ann@example.com'', cred_password = ''secret''\<rparr>,
            bearer = None\<rparr>
     \<and> auth_token auth_start = None \<and> auth_user auth_start = None"
    by (simp add: api_fail_def auth_start_def sample_trim_def)
  then have "\<not> ok (api_fail (Some ''Invalid credentials'') (auth_post sample_trim auth_start)
            :: AuthData api_result)
     \<or> data (api_fail (Some ''Invalid credentials'') (auth_post sample_trim auth_start)
            :: AuthData api_result) = None"
    by (elim conjE) (rule disjI1)
  from failed_auth_leaves_session_unset
    [where api_post = "api_fail (Some ''Invalid credentials'')" and trim = sample_trim
       and s = auth_start and stringify = sample_stringify and has_window = True, OF this]
  obtain s' where s': "submit sample_trim sample_stringify True
         (api_fail (Some ''Invalid credentials'')) auth_start
         = ([auth_post sample_trim auth_start], s')"
    by (elim exE conjE)
  have "submit sample_trim sample_stringify True (api_fail (Some ''Invalid credentials'')) auth_start
       = ([\<lparr>meth = POST, path = ''/auth/login'',
            body = CredBody \<lparr>cred_email = ''ann@example.com'', cred_password = ''secret''\<rparr>,
            bearer = None\<rparr>],
          auth_start\<lparr>errorSig := Some ''Invalid credentials''\<rparr>)"
    using s'
    by (simp add: submit_def api_fail_def auth_start_def sample_trim_def or_default_def
          truthy_def Let_def)
  with ev show ?thesis by (elim conjE) (intro conjI, assumption+)
qed

text \<open>
  Claim C5 as stated fails when the server's error string is the empty string: the
  overlay then shows "Authentication failed" and not the string of the server.
\<close>

theorem empty_auth_error_counterexample:
  "error (api_fail (Some []) (auth_post sample_trim auth_start) :: AuthData api_result) = Some []
   \<and> errorSig (snd (submit sample_trim sample_stringify True (api_fail (Some [])) auth_start))
       = Some ''Authentication failed''"
  by (simp add: submit_def api_fail_def or_default_def truthy_def auth_start_def Let_def)

subsection \<open>Restoring the session\<close>

text \<open>
  Claim C7, on the restore modelled from the spec. When both keys are present and the
  stored user is well-formed, token and user are restored from them and no request is
  issued; when either key is absent, token and user are unset, and no request is issued.
\<close>

theorem restore_session:
  "(localStorage s ''auth_token'' = Some t \<and> localStorage s ''auth_user'' = Some u
      \<and> parseUser u = Some usr
      \<longrightarrow> restoreSession parseUser s = ([], s\<lparr>auth_token := Some t, auth_user := Some usr\<rparr>))
   \<and> (localStorage s ''auth_token'' = None \<or> localStorage s ''auth_user'' = None
      \<longrightarrow> restoreSession parseUser s = ([], s\<lparr>auth_token := None, auth_user := None\<rparr>))"
  by (auto simp: restoreSession_def split: option.splits)

theorem restore_session_witness:
  "localStorage auth_stored ''auth_token'' = Some ''tok''
   \<and> sample_parseUser (sample_stringify sample_user) = Some sample_user
   \<and> restoreSession sample_parseUser auth_stored
       = ([], auth_stored\<lparr>auth_token := Some ''tok'', auth_user := Some sample_user\<rparr>)
   \<and> localStorage auth_start ''auth_user'' = None
   \<and> restoreSession sample_parseUser auth_start = ([], auth_start)"
proof -
  have ev: "localStorage auth_stored ''auth_token'' = Some ''tok''
     \<and> localStorage auth_stored ''auth_user'' = Some (sample_stringify sample_user)
     \<and> sample_parseUser (sample_stringify sample_user) = Some sample_user"
    by (simp add: auth_stored_def auth_start_def sample_parseUser_def)
  from restore_session [of auth_stored "''tok''" "sample_stringify sample_user"
      sample_parseUser sample_user]
  have "localStorage auth_stored ''auth_token'' = Some ''tok''
     \<and> localStorage auth_stored ''auth_user'' = Some (sample_stringify sample_user)
     \<and> sample_parseUser (sample_stringify sample_user) = Some sample_user
     \<longrightarrow> restoreSession sample_parseUser auth_stored
       = ([], auth_stored\<lparr>auth_token := Some ''tok'', auth_user := Some sample_user\<rparr>)"
    by (rule conjunct1)
  from this ev have r1: "restoreSession sample_parseUser auth_stored
       = ([], auth_stored\<lparr>auth_token := Some ''tok'', auth_user := Some sample_user\<rparr>)"
    by (rule mp)
  have n: "localStorage auth_start ''auth_user'' = None"
    by (simp add: auth_start_def)
  have same: "auth_start\<lparr>auth_token := None, auth_user := None\<rparr> = auth_start"
    by (simp add: auth_start_def)
  from restore_session [of auth_start _ _ sample_parseUser]
  have "localStorage auth_start ''auth_token'' = None \<or> localStorage auth_start ''auth_user'' = None
      \<longrightarrow> restoreSession sample_parseUser auth_start
          = ([], auth_start\<lparr>auth_token := None, auth_user := None\<rparr>)"
    by (rule conjunct2)
  with n have "restoreSession sample_parseUser auth_start
          = ([], auth_start\<lparr>auth_token := None, auth_user := None\<rparr>)"
    by blast
  with same have r2: "restoreSession sample_parseUser auth_start = ([], auth_start)"
    by simp
  from ev r1 n r2 show ?thesis by (elim conjE) (intro conjI, assumption+)
qed

end
